theory Spec2Isabelle
  imports Main
begin

section \<open>The reconnect policy of RedisManager\<close>

text \<open>
  The only branching logic of \<^verbatim>\<open>src/index.ts\<close> is the \<^verbatim>\<open>retry_strategy\<close> callback
  handed to \<^verbatim>\<open>createClient\<close> in the constructor of \<^verbatim>\<open>RedisManager\<close> (lines 15 to 27):
  \<^verbatim>\<open>
  retry_strategy: (options) => {
    if (options.error && options.error.code === 'ECONNREFUSED') {
      console.error('Redis server refused connection');
      return new Error('Redis server refused connection');
    }
    if (options.total_retry_time > 1000 * 60 * 60) {
      return new Error('Retry time exhausted');
    }
    if (options.attempt > 10) {
      return new Error('Max retry attempts reached');
    }
    return Math.min(options.attempt * 100, 3000);
  }
  \<close>
  The specification calls this callback \<open>decide\<close>, its argument the \<open>RetryState\<close>, a
  returned \<^verbatim>\<open>Error\<close> a \<open>Fatal\<close> outcome and a returned number a \<open>WaitThenRetry\<close> outcome.
\<close>

subsection \<open>Data\<close>

text \<open>
  The error object carried by the options. Only its \<^verbatim>\<open>code\<close> property is read; a
  transport error without a code has \<open>code = None\<close>.
\<close>

record js_error =
  code :: "string option"

text \<open>
  The argument of the callback. \<^verbatim>\<open>options.error\<close> is absent (falsy) or an error object.
  The two counters are JavaScript numbers; the client library supplies whole numbers
  (milliseconds and a count), modelled as unbounded integers.
\<close>

record retry_options =
  error :: "js_error option"
  total_retry_time :: int
  attempt :: int

text \<open>
  What the callback returns: \<open>Fatal m\<close> is \<^verbatim>\<open>new Error(m)\<close>, \<open>WaitThenRetry d\<close> is the
  number \<open>d\<close>, the delay in milliseconds.
\<close>

datatype outcome = Fatal string | WaitThenRetry int

text \<open>The lines written by \<^verbatim>\<open>console.error\<close>, oldest first.\<close>

type_synonym console = "string list"

subsection \<open>The callback\<close>

text \<open>The guard of line 16: \<^verbatim>\<open>options.error && options.error.code === 'ECONNREFUSED'\<close>.\<close>

definition connection_refused :: "retry_options \<Rightarrow> bool" where
  "connection_refused options =
     (case error options of
        None \<Rightarrow> False
      | Some e \<Rightarrow> code e = Some ''ECONNREFUSED'')"

text \<open>
  The callback itself, with the console passed through: the refusal branch logs one
  line before it returns, the other branches log nothing.
\<close>

definition retry_strategy :: "retry_options \<Rightarrow> console \<Rightarrow> outcome \<times> console" where
  "retry_strategy options con =
     (if connection_refused options then
        (Fatal ''Redis server refused connection'',
         con @ [''Redis server refused connection''])
      else if total_retry_time options > 1000 * 60 * 60 then
        (Fatal ''Retry time exhausted'', con)
      else if attempt options > 10 then
        (Fatal ''Max retry attempts reached'', con)
      else
        (WaitThenRetry (min (attempt options * 100) 3000), con))"

text \<open>The decision of the policy is the value the callback returns.\<close>

definition decide :: "retry_options \<Rightarrow> outcome" where
  "decide options = fst (retry_strategy options [])"

fun is_fatal :: "outcome \<Rightarrow> bool" where
  "is_fatal (Fatal m) = True"
| "is_fatal (WaitThenRetry d) = False"

subsection \<open>Concrete retry states\<close>

text \<open>A refused connection on the first attempt, after 50 ms.\<close>

definition refused_early :: retry_options where
  "refused_early =
     \<lparr>error = Some \<lparr>code = Some ''ECONNREFUSED''\<rparr>, total_retry_time = 50, attempt = 1\<rparr>"

text \<open>A timed-out connection on the given attempt, after the given time.\<close>

definition timed_out :: "int \<Rightarrow> int \<Rightarrow> retry_options" where
  "timed_out t a =
     \<lparr>error = Some \<lparr>code = Some ''ETIMEDOUT''\<rparr>, total_retry_time = t, attempt = a\<rparr>"

text \<open>No error recorded yet.\<close>

definition no_error :: "int \<Rightarrow> int \<Rightarrow> retry_options" where
  "no_error t a = \<lparr>error = None, total_retry_time = t, attempt = a\<rparr>"

section \<open>Basic facts\<close>

lemma refused_early_refused: "connection_refused refused_early"
  by (simp add: connection_refused_def refused_early_def)

lemma timed_out_not_refused: "\<not> connection_refused (timed_out t a)"
  by (simp add: connection_refused_def timed_out_def)

lemma no_error_not_refused: "\<not> connection_refused (no_error t a)"
  by (simp add: connection_refused_def no_error_def)

lemma timed_out_sel:
  "total_retry_time (timed_out t a) = t" "attempt (timed_out t a) = a"
  by (simp_all add: timed_out_def)

lemma no_error_sel:
  "total_retry_time (no_error t a) = t" "attempt (no_error t a) = a"
  by (simp_all add: no_error_def)

text \<open>Changing the attempt count leaves the error and the elapsed time as they are.\<close>

lemma attempt_update_refused:
  "connection_refused (options\<lparr>attempt := a\<rparr>) = connection_refused options"
  by (simp add: connection_refused_def)

text \<open>The returned value does not depend on what the console already holds.\<close>

lemma retry_strategy_outcome: "fst (retry_strategy options con) = decide options"
  by (simp add: retry_strategy_def decide_def)

text \<open>One equation per rule of the callback, each under the negation of the earlier guards.\<close>

lemma decide_refused:
  "connection_refused options \<Longrightarrow> decide options = Fatal ''Redis server refused connection''"
  by (simp add: decide_def retry_strategy_def)

lemma decide_time:
  "\<not> connection_refused options \<Longrightarrow> total_retry_time options > 3600000 \<Longrightarrow>
   decide options = Fatal ''Retry time exhausted''"
  by (simp add: decide_def retry_strategy_def)

lemma decide_attempts:
  "\<not> connection_refused options \<Longrightarrow> total_retry_time options \<le> 3600000 \<Longrightarrow>
   attempt options > 10 \<Longrightarrow> decide options = Fatal ''Max retry attempts reached''"
  by (simp add: decide_def retry_strategy_def)

lemma decide_backoff:
  "\<not> connection_refused options \<Longrightarrow> total_retry_time options \<le> 3600000 \<Longrightarrow>
   attempt options \<le> 10 \<Longrightarrow>
   decide options = WaitThenRetry (min (attempt options * 100) 3000)"
  by (simp add: decide_def retry_strategy_def)

section \<open>The claims\<close>

text \<open>
  C1. For every retry state with attempt count \<open>a\<close> in [1,10], last error not a refused
  connection and elapsed retry time at most 3,600,000 ms, the decision is
  \<open>WaitThenRetry\<close> with delay \<open>min (a * 100) 3000\<close> milliseconds.
\<close>

theorem C1_backoff_in_range:
  assumes "1 \<le> attempt options" and "attempt options \<le> 10"
    and "\<not> connection_refused options"
    and "total_retry_time options \<le> 3600000"
  shows "decide options = WaitThenRetry (min (attempt options * 100) 3000)"
  using assms by (simp add: decide_backoff)

theorem C1_backoff_in_range_witness:
  "1 \<le> attempt (timed_out 3600000 7) \<and> attempt (timed_out 3600000 7) \<le> 10
   \<and> \<not> connection_refused (timed_out 3600000 7)
   \<and> total_retry_time (timed_out 3600000 7) \<le> 3600000
   \<and> decide (timed_out 3600000 7) = WaitThenRetry 700"
proof -
  have a: "1 \<le> attempt (timed_out 3600000 7)" "attempt (timed_out 3600000 7) \<le> 10"
    by (simp_all add: timed_out_sel)
  have t: "total_retry_time (timed_out 3600000 7) \<le> 3600000"
    by (simp add: timed_out_sel)
  from C1_backoff_in_range [OF a timed_out_not_refused t] a t timed_out_not_refused
  show ?thesis by (simp add: timed_out_sel)
qed

text \<open>
  C2. For every retry state whose last error is a refused connection the decision is
  fatal, whatever the attempt count and the elapsed time: the refusal check comes
  first. The reason the code gives is the message
  \<^verbatim>\<open>Redis server refused connection\<close>, not \<^verbatim>\<open>server refused connection\<close>.
\<close>

theorem C2_refused_is_fatal:
  assumes "connection_refused options"
  shows "decide options = Fatal ''Redis server refused connection''"
  using assms by (rule decide_refused)

theorem C2_refused_is_fatal_witness:
  "connection_refused refused_early
   \<and> attempt refused_early \<le> 10 \<and> total_retry_time refused_early \<le> 3600000
   \<and> decide refused_early = Fatal ''Redis server refused connection''"
proof -
  have small: "attempt refused_early \<le> 10" "total_retry_time refused_early \<le> 3600000"
    by (simp_all add: refused_early_def)
  from C2_refused_is_fatal [OF refused_early_refused] refused_early_refused small
  show ?thesis by simp
qed

text \<open>
  The claim as written, with the reason \<^verbatim>\<open>server refused connection\<close>, fails on the
  refused first attempt: the message carries the prefix \<^verbatim>\<open>Redis\<close>.
\<close>

theorem C2_reason_counterexample:
  "connection_refused refused_early
   \<and> decide refused_early \<noteq> Fatal ''server refused connection''"
  by (simp add: refused_early_refused decide_refused)

text \<open>
  C3. For every retry state whose last error is not a refused connection and whose
  elapsed retry time strictly exceeds 3,600,000 ms the decision is fatal; in particular
  at 3,600,001 ms on attempt 1. The reason the code gives is the message
  \<^verbatim>\<open>Retry time exhausted\<close>, with a capital R.
\<close>

theorem C3_time_exhausted:
  assumes "\<not> connection_refused options"
    and "total_retry_time options > 3600000"
  shows "decide options = Fatal ''Retry time exhausted''"
  using assms by (rule decide_time)

theorem C3_time_exhausted_witness:
  "\<not> connection_refused (no_error 3600001 1)
   \<and> total_retry_time (no_error 3600001 1) > 3600000
   \<and> attempt (no_error 3600001 1) = 1
   \<and> decide (no_error 3600001 1) = Fatal ''Retry time exhausted''"
proof -
  have t: "total_retry_time (no_error 3600001 1) > 3600000"
    by (simp add: no_error_sel)
  from C3_time_exhausted [OF no_error_not_refused t] t no_error_not_refused
  show ?thesis by (simp add: no_error_sel)
qed

text \<open>
  The claim as written, with the reason \<^verbatim>\<open>retry time exhausted\<close>, fails at
  3,600,001 ms on attempt 1.
\<close>

theorem C3_reason_counterexample:
  "\<not> connection_refused (no_error 3600001 1)
   \<and> total_retry_time (no_error 3600001 1) > 3600000
   \<and> decide (no_error 3600001 1) \<noteq> Fatal ''retry time exhausted''"
  by (simp add: no_error_not_refused no_error_sel decide_time)

text \<open>
  C4. For every retry state with attempt count above 10 (11 in particular) and last
  error not a refused connection, the decision is fatal, and the elapsed time selects
  the reason: with at most 3,600,000 ms elapsed the message is
  \<^verbatim>\<open>Max retry attempts reached\<close>; with more than 3,600,000 ms elapsed the elapsed-time
  check of line 20, which comes before the attempt check of line 23, decides and the
  message is \<^verbatim>\<open>Retry time exhausted\<close>.
\<close>

theorem C4_max_attempts:
  assumes "attempt options > 10"
    and "\<not> connection_refused options"
  shows "(total_retry_time options \<le> 3600000 \<longrightarrow>
            decide options = Fatal ''Max retry attempts reached'')
    \<and> (total_retry_time options > 3600000 \<longrightarrow>
            decide options = Fatal ''Retry time exhausted'')"
  using assms by (simp add: decide_attempts decide_time)

theorem C4_max_attempts_witness:
  "attempt (timed_out 3600000 11) > 10
   \<and> \<not> connection_refused (timed_out 3600000 11)
   \<and> total_retry_time (timed_out 3600000 11) \<le> 3600000
   \<and> decide (timed_out 3600000 11) = Fatal ''Max retry attempts reached''
   \<and> attempt (timed_out 3600002 11) > 10
   \<and> \<not> connection_refused (timed_out 3600002 11)
   \<and> total_retry_time (timed_out 3600002 11) > 3600000
   \<and> decide (timed_out 3600002 11) = Fatal ''Retry time exhausted''"
proof -
  have a: "attempt (timed_out 3600000 11) > 10"
    by (simp add: timed_out_sel)
  have t: "total_retry_time (timed_out 3600000 11) \<le> 3600000"
    by (simp add: timed_out_sel)
  have a': "attempt (timed_out 3600002 11) > 10"
    by (simp add: timed_out_sel)
  have t': "total_retry_time (timed_out 3600002 11) > 3600000"
    by (simp add: timed_out_sel)
  from C4_max_attempts [OF a timed_out_not_refused] t
  have within: "decide (timed_out 3600000 11) = Fatal ''Max retry attempts reached''"
    by simp
  from C4_max_attempts [OF a' timed_out_not_refused] t'
  have beyond: "decide (timed_out 3600002 11) = Fatal ''Retry time exhausted''"
    by simp
  from a t a' t' within beyond timed_out_not_refused show ?thesis
    by simp
qed

text \<open>
  The claim as written, "regardless of elapsed time", fails on attempt 11 after
  3,600,001 ms: the decision is fatal, but for the exhausted retry time.
\<close>

theorem C4_elapsed_counterexample:
  "attempt (timed_out 3600001 11) = 11
   \<and> \<not> connection_refused (timed_out 3600001 11)
   \<and> decide (timed_out 3600001 11) = Fatal ''Retry time exhausted''
   \<and> decide (timed_out 3600001 11) \<noteq> Fatal ''max retry attempts reached''
   \<and> decide (timed_out 3600001 11) \<noteq> Fatal ''Max retry attempts reached''"
  by (simp add: timed_out_not_refused timed_out_sel decide_time)

text \<open>
  C5. The rules are tried in order and the first match wins. With no refusal and the
  elapsed time under the cap, attempt 1 waits 100 ms. For attempt 30 the backoff
  formula alone would give the cap of 3000 ms, but the attempt check comes before the
  formula, so attempt 30 is fatal under rule 3 and is not a wait of 3000 ms.
\<close>

theorem C5_rule_order:
  assumes "\<not> connection_refused options"
    and "total_retry_time options \<le> 3600000"
  shows "decide (options\<lparr>attempt := 1\<rparr>) = WaitThenRetry 100
    \<and> min (attempt (options\<lparr>attempt := 30\<rparr>) * 100) 3000 = 3000
    \<and> decide (options\<lparr>attempt := 30\<rparr>) = Fatal ''Max retry attempts reached''
    \<and> decide (options\<lparr>attempt := 30\<rparr>) \<noteq> WaitThenRetry 3000"
proof -
  have one: "decide (options\<lparr>attempt := 1\<rparr>) = WaitThenRetry 100"
    using assms by (simp add: decide_backoff attempt_update_refused)
  have thirty: "decide (options\<lparr>attempt := 30\<rparr>) = Fatal ''Max retry attempts reached''"
    using assms by (simp add: decide_attempts attempt_update_refused)
  from one thirty show ?thesis by simp
qed

theorem C5_rule_order_witness:
  "\<not> connection_refused (timed_out 2000 0)
   \<and> total_retry_time (timed_out 2000 0) \<le> 3600000
   \<and> decide (timed_out 2000 1) = WaitThenRetry 100
   \<and> decide (timed_out 2000 30) = Fatal ''Max retry attempts reached''"
proof -
  have t: "total_retry_time (timed_out 2000 0) \<le> 3600000"
    by (simp add: timed_out_sel)
  have upd: "(timed_out 2000 0)\<lparr>attempt := a\<rparr> = timed_out 2000 a" for a
    by (simp add: timed_out_def)
  from C5_rule_order [OF timed_out_not_refused t] t timed_out_not_refused
  show ?thesis by (simp add: upd)
qed

text \<open>
  C6. The decision is fatal exactly when one of the three fatal conditions holds:
  the connection was refused, the retry time is exhausted, or the attempts are used
  up. For any other transport error, with the elapsed time within the hour and at most
  10 attempts, the decision is to wait and retry under rule 4.
\<close>

theorem C6_fatal_iff:
  "(is_fatal (decide options) \<longleftrightarrow>
      connection_refused options \<or> total_retry_time options > 3600000
      \<or> attempt options > 10)
   \<and> (\<not> connection_refused options \<and> total_retry_time options \<le> 3600000
        \<and> attempt options \<le> 10 \<longrightarrow>
      decide options = WaitThenRetry (min (attempt options * 100) 3000))"
proof (cases "connection_refused options \<or> total_retry_time options > 3600000
    \<or> attempt options > 10")
  case True
  then have "is_fatal (decide options)"
    by (auto simp add: decide_def retry_strategy_def)
  with True show ?thesis by auto
next
  case False
  then have "decide options = WaitThenRetry (min (attempt options * 100) 3000)"
    by (simp add: decide_backoff)
  with False show ?thesis by simp
qed

theorem C6_fatal_iff_witness:
  "\<not> connection_refused (timed_out 1500 3)
   \<and> total_retry_time (timed_out 1500 3) \<le> 3600000
   \<and> attempt (timed_out 1500 3) \<le> 10
   \<and> decide (timed_out 1500 3) = WaitThenRetry 300
   \<and> \<not> is_fatal (decide (timed_out 1500 3))"
proof -
  have h: "total_retry_time (timed_out 1500 3) \<le> 3600000" "attempt (timed_out 1500 3) \<le> 10"
    by (simp_all add: timed_out_sel)
  from C6_fatal_iff [of "timed_out 1500 3"] h timed_out_not_refused [of 1500 3]
  show ?thesis by (simp add: timed_out_sel)
qed

text \<open>
  C7. The value the callback returns is determined by the retry state alone: it is
  the same whatever the console holds, and a second call on the same state, made after
  the first, returns the value the first call returned. The callback is not free of
  effects, though: when the connection was refused every call appends the line
  \<^verbatim>\<open>Redis server refused connection\<close> to the console (line 17); in every other case
  it leaves the console as it was.
\<close>

theorem C7_outcome_deterministic:
  "fst (retry_strategy options con) = fst (retry_strategy options con')
   \<and> fst (retry_strategy options (snd (retry_strategy options con)))
       = fst (retry_strategy options con)
   \<and> (connection_refused options \<longrightarrow>
        snd (retry_strategy options con) = con @ [''Redis server refused connection''])
   \<and> (\<not> connection_refused options \<longrightarrow> snd (retry_strategy options con) = con)"
proof -
  have effect: "snd (retry_strategy options c) =
      (if connection_refused options then c @ [''Redis server refused connection''] else c)"
    for c
    by (simp add: retry_strategy_def)
  show ?thesis
    by (simp add: retry_strategy_outcome effect)
qed

theorem C7_outcome_deterministic_witness:
  "connection_refused refused_early
   \<and> snd (retry_strategy refused_early [''earlier line''])
       = [''earlier line'', ''Redis server refused connection'']
   \<and> \<not> connection_refused (timed_out 1500 3)
   \<and> snd (retry_strategy (timed_out 1500 3) [''earlier line'']) = [''earlier line'']
   \<and> fst (retry_strategy refused_early [''earlier line''])
       = fst (retry_strategy refused_early [])"
proof -
  from C7_outcome_deterministic [of refused_early "[''earlier line'']" "[]"]
    refused_early_refused
  have logged: "snd (retry_strategy refused_early [''earlier line''])
       = [''earlier line'', ''Redis server refused connection'']"
    and same: "fst (retry_strategy refused_early [''earlier line''])
       = fst (retry_strategy refused_early [])"
    by simp_all
  from C7_outcome_deterministic [of "timed_out 1500 3" "[''earlier line'']" "[]"]
    timed_out_not_refused [of 1500 3]
  have silent: "snd (retry_strategy (timed_out 1500 3) [''earlier line'']) = [''earlier line'']"
    by simp
  from logged same silent refused_early_refused timed_out_not_refused [of 1500 3]
  show ?thesis by simp
qed

text \<open>
  The claim as written, "pure function", fails on the refused first attempt: the call
  returns its value and also changes the console, which was empty before the call.
\<close>

theorem C7_purity_counterexample:
  "connection_refused refused_early
   \<and> snd (retry_strategy refused_early []) = [''Redis server refused connection'']
   \<and> snd (retry_strategy refused_early []) \<noteq> []"
  by (simp add: retry_strategy_def refused_early_refused)

text \<open>
  C8. Whenever the decision is to wait, the delay is exactly the attempt count times
  100 ms and is at most 1000 ms: attempt counts above 10 are fatal before the formula
  is reached, so the minimum never selects the cap of 3000 ms.
\<close>

theorem C8_delay_exact:
  assumes "decide options = WaitThenRetry d"
  shows "d = attempt options * 100 \<and> d \<le> 1000 \<and> d < 3000
    \<and> min (attempt options * 100) 3000 = attempt options * 100"
  using assms by (auto simp add: decide_def retry_strategy_def split: if_splits)

theorem C8_delay_exact_witness:
  "decide (timed_out 900000 10) = WaitThenRetry 1000
   \<and> 1000 = attempt (timed_out 900000 10) * 100"
proof -
  have w: "decide (timed_out 900000 10) = WaitThenRetry 1000"
    by (simp add: decide_backoff timed_out_not_refused timed_out_sel)
  from C8_delay_exact [OF w] w show ?thesis by simp
qed

text \<open>
  C9. The delay is monotonically non-decreasing in the attempt count: of two retry
  states on which the decision is to wait, the one with the smaller or equal attempt
  count gets the smaller or equal delay. This holds for any two such states, so in
  particular for two states with the same error and the same elapsed time.
\<close>

theorem C9_delay_monotone:
  assumes "decide options1 = WaitThenRetry d1"
    and "decide options2 = WaitThenRetry d2"
    and "attempt options1 \<le> attempt options2"
  shows "d1 \<le> d2"
  using assms by (auto simp add: decide_def retry_strategy_def split: if_splits)

theorem C9_delay_monotone_witness:
  "decide (timed_out 1200 2) = WaitThenRetry 200
   \<and> decide (timed_out 1200 9) = WaitThenRetry 900
   \<and> attempt (timed_out 1200 2) \<le> attempt (timed_out 1200 9)
   \<and> (200::int) \<le> 900"
proof -
  have w1: "decide (timed_out 1200 2) = WaitThenRetry 200"
    by (simp add: decide_backoff timed_out_not_refused timed_out_sel)
  have w2: "decide (timed_out 1200 9) = WaitThenRetry 900"
    by (simp add: decide_backoff timed_out_not_refused timed_out_sel)
  have le: "attempt (timed_out 1200 2) \<le> attempt (timed_out 1200 9)"
    by (simp add: timed_out_sel)
  from C9_delay_monotone [OF w1 w2 le] w1 w2 le show ?thesis by simp
qed

text \<open>
  C10. For the initial retry state, with attempt count 0, no refused connection and
  the elapsed time within the cap, the decision is to wait 0 ms: an immediate retry.
\<close>

theorem C10_initial_immediate:
  assumes "attempt options = 0"
    and "\<not> connection_refused options"
    and "total_retry_time options \<le> 3600000"
  shows "decide options = WaitThenRetry 0"
  using assms by (simp add: decide_backoff)

theorem C10_initial_immediate_witness:
  "attempt (no_error 0 0) = 0
   \<and> \<not> connection_refused (no_error 0 0)
   \<and> total_retry_time (no_error 0 0) \<le> 3600000
   \<and> decide (no_error 0 0) = WaitThenRetry 0"
proof -
  have a: "attempt (no_error 0 0) = 0"
    by (simp add: no_error_sel)
  have t: "total_retry_time (no_error 0 0) \<le> 3600000"
    by (simp add: no_error_sel)
  from C10_initial_immediate [OF a no_error_not_refused t] a t no_error_not_refused
  show ?thesis by simp
qed

end
